theory Spec2Isabelle
  imports Main
begin

section \<open>Python strings\<close>

text \<open>
  The string methods that \<^verbatim>\<open>server.py\<close> calls: \<^verbatim>\<open>s.endswith(suffix)\<close>,
  \<^verbatim>\<open>s.startswith(prefix)\<close> and the substring test \<^verbatim>\<open>sub in s\<close>.
\<close>

definition endswith :: "string \<Rightarrow> string \<Rightarrow> bool" where
  "endswith s suffix =
     (length suffix \<le> length s \<and> drop (length s - length suffix) s = suffix)"

definition startswith :: "string \<Rightarrow> string \<Rightarrow> bool" where
  "startswith s prefix = (take (length prefix) s = prefix)"

fun contains :: "string \<Rightarrow> string \<Rightarrow> bool" where
  "contains sub [] = (sub = [])"
| "contains sub (c # cs) = (startswith (c # cs) sub \<or> contains sub cs)"

section \<open>GameHTTPRequestHandler\<close>

subsection \<open>The part of the base handler that the overrides call\<close>

text \<open>
  \<^verbatim>\<open>GameHTTPRequestHandler\<close> extends \<^verbatim>\<open>http.server.SimpleHTTPRequestHandler\<close>
  and calls three inherited methods: \<^verbatim>\<open>send_header\<close>, the base \<^verbatim>\<open>end_headers\<close> and
  the base \<^verbatim>\<open>guess_type\<close>. They are standard-library code (CPython 3.11,
  \<^verbatim>\<open>http/server.py\<close>):
  \<^verbatim>\<open>
  def send_header(self, keyword, value):
      if self.request_version != 'HTTP/0.9':
          self._headers_buffer.append(
              ("%s: %s\r\n" % (keyword, value)).encode('latin-1', 'strict'))
      ...
  def end_headers(self):
      if self.request_version != 'HTTP/0.9':
          self._headers_buffer.append(b"\r\n")
          self.flush_headers()
  def flush_headers(self):
      self.wfile.write(b"".join(self._headers_buffer))
      self._headers_buffer = []
  \<close>
  The handler state keeps the three attributes these methods read and write. The
  \<^verbatim>\<open>close_connection\<close> flag that \<^verbatim>\<open>send_header\<close> also sets for a
  \<^verbatim>\<open>Connection\<close> header is left out: no header of \<^verbatim>\<open>server.py\<close> is a
  \<^verbatim>\<open>Connection\<close> header.
\<close>

record handler =
  request_version :: string
  headers_buffer :: "string list"
  wfile :: "string list"

definition crlf :: string where
  "crlf = [CHR 0x0D, CHR 0x0A]"

definition header_line :: "string \<Rightarrow> string \<Rightarrow> string" where
  "header_line keyword val = keyword @ '': '' @ val @ crlf"

definition send_header :: "string \<Rightarrow> string \<Rightarrow> handler \<Rightarrow> handler" where
  "send_header keyword val h =
     (if request_version h \<noteq> ''HTTP/0.9''
      then h\<lparr>headers_buffer := headers_buffer h @ [header_line keyword val]\<rparr>
      else h)"

definition flush_headers :: "handler \<Rightarrow> handler" where
  "flush_headers h =
     h\<lparr>wfile := wfile h @ [concat (headers_buffer h)], headers_buffer := []\<rparr>"

definition base_end_headers :: "handler \<Rightarrow> handler" where
  "base_end_headers h =
     (if request_version h \<noteq> ''HTTP/0.9''
      then flush_headers (h\<lparr>headers_buffer := headers_buffer h @ [crlf]\<rparr>)
      else h)"

text \<open>
  The base \<^verbatim>\<open>guess_type\<close> looks the extension up in the handler's table and in the
  platform's \<^verbatim>\<open>mimetypes\<close> database and returns
  \<^verbatim>\<open>'application/octet-stream'\<close> when neither knows it. The two lookups are one
  parameter here, the platform's guess, \<open>None\<close> when the type is unknown.
\<close>

type_synonym mime_guess = "string \<Rightarrow> string option"

definition base_guess_type :: "mime_guess \<Rightarrow> string \<Rightarrow> string" where
  "base_guess_type platform_guess path =
     (case platform_guess path of
        Some t \<Rightarrow> t
      | None \<Rightarrow> ''application/octet-stream'')"

subsection \<open>The overrides of \<^verbatim>\<open>server.py\<close>\<close>

definition end_headers :: "handler \<Rightarrow> handler" where
  "end_headers h =
     (let h1 = send_header ''Access-Control-Allow-Origin'' ''*'' h;
          h2 = send_header ''Access-Control-Allow-Methods'' ''GET, POST, OPTIONS'' h1;
          h3 = send_header ''Access-Control-Allow-Headers'' ''*'' h2
      in base_end_headers h3)"

definition guess_type :: "mime_guess \<Rightarrow> string \<Rightarrow> string" where
  "guess_type platform_guess path =
     (let mimetype = base_guess_type platform_guess path
      in if endswith path ''.js'' then ''application/javascript''
         else if endswith path ''.css'' then ''text/css''
         else if endswith path ''.html'' then ''text/html''
         else mimetype)"

text \<open>The block of CORS header lines that the override adds to a response.\<close>

definition cors_headers :: "string list" where
  "cors_headers =
     [header_line ''Access-Control-Allow-Origin'' ''*'',
      header_line ''Access-Control-Allow-Methods'' ''GET, POST, OPTIONS'',
      header_line ''Access-Control-Allow-Headers'' ''*'']"

section \<open>The platform and the process\<close>

text \<open>
  What the launcher and the server ask of the interpreter and the operating system.
  Exceptions are values; only the classes that \<^verbatim>\<open>server.py\<close> can meet are listed.
\<close>

datatype exn =
    FileNotFoundError
  | OSError
  | PermissionError
  | ValueError
  | KeyboardInterrupt
  | SystemExit int

text \<open>
  A call either returns, raises, or never returns (\<open>Blocked\<close>: the accept loop that
  waits for a connection which never comes, or a wait for an event nobody sets).
\<close>

datatype 'a result = Return 'a | Raise exn | Blocked

datatype port_status = Free | InUse | Denied

text \<open>
  \<^verbatim>\<open>subprocess.run(cmd, check=False, capture_output=True)\<close> raises when the program
  cannot be started at all; when it ran, the call returns whatever the exit status is
  (\<^verbatim>\<open>check=False\<close>).
\<close>

datatype run_result = CannotStart | Exited int

text \<open>
  The platform is fixed during a run: \<^verbatim>\<open>int(s)\<close> (\<open>None\<close> where it raises
  \<^verbatim>\<open>ValueError\<close>), \<^verbatim>\<open>os.path.expanduser\<close>, which directories exist, which ports can
  be bound and what running a command gives.
\<close>

record platform =
  int_of :: "string \<Rightarrow> int option"
  expanduser :: "string \<Rightarrow> string"
  dir_exists :: "string \<Rightarrow> bool"
  port_state :: "int \<Rightarrow> port_status"
  run_command :: "string list \<Rightarrow> run_result"

text \<open>
  The texts printed by \<^verbatim>\<open>server.py\<close>, one constructor for each \<^verbatim>\<open>print\<close>, and
  the traceback the interpreter writes for an uncaught exception.
\<close>

datatype message =
    Msg_starting
  | Msg_serving string
  | Msg_url int
  | Msg_press_ctrl_c
  | Msg_rule
  | Msg_stopping
  | Msg_stopped
  | Msg_received_interrupt
  | Traceback exn

text \<open>The effects of the process on the outside, in the order they happen.\<close>

datatype event =
    Chdir string
  | Bind int
  | Close int
  | Run "string list"
  | Browser string
  | Handle_request
  | Stdout message
  | Stderr message

text \<open>
  The handler installed for \<^verbatim>\<open>SIGINT\<close>: Python's own, which raises
  \<^verbatim>\<open>KeyboardInterrupt\<close>, or the \<^verbatim>\<open>signal_handler\<close> of \<^verbatim>\<open>server.py\<close>.
\<close>

datatype sigint_handler = Default_int_handler | Signal_handler

record process =
  cwd :: string
  sigint :: sigint_handler
  trace :: "event list"

definition emit :: "event \<Rightarrow> process \<Rightarrow> process" where
  "emit e p = p\<lparr>trace := trace p @ [e]\<rparr>"

definition print :: "message \<Rightarrow> process \<Rightarrow> process" where
  "print m p = emit (Stdout m) p"

text \<open>\<^verbatim>\<open>os.chdir\<close>: raises when the directory does not exist, and then changes nothing.\<close>

definition os_chdir :: "platform \<Rightarrow> string \<Rightarrow> process \<Rightarrow> exn + process" where
  "os_chdir pf d p =
     (if dir_exists pf d then Inr (emit (Chdir d) (p\<lparr>cwd := d\<rparr>))
      else Inl FileNotFoundError)"

subsection \<open>The listening server of \<^verbatim>\<open>socketserver\<close>\<close>

text \<open>
  \<^verbatim>\<open>socketserver.TCPServer\<close> as far as \<^verbatim>\<open>GameServer\<close> uses it (CPython 3.11,
  \<^verbatim>\<open>socketserver.py\<close>). The constructor binds and listens, and raises when the port
  cannot be bound. \<^verbatim>\<open>serve_forever\<close> clears the event \<^verbatim>\<open>__is_shut_down\<close> on entry
  and sets it in its \<^verbatim>\<open>finally\<close> clause, when the loop is left.
  \<^verbatim>\<open>
  def shutdown(self):
      """Stops the serve_forever loop.

      Blocks until the loop has finished. This must be called while
      serve_forever() is running in another thread, or it will
      deadlock.
      """
      self.__shutdown_request = True
      self.__is_shut_down.wait()
  \<close>
  \<^verbatim>\<open>server.py\<close> starts no thread, so the caller of \<^verbatim>\<open>shutdown\<close> is the thread that
  runs, or would run, the loop. The wait ends only when the event is already set, that
  is after the loop has been left; before the loop was entered, and while it runs
  (the caller is then inside it), nobody sets the event and the call never returns
  (\<open>None\<close>).
\<close>

datatype loop_state = Not_started | Serving | Finished

record tcp_server =
  server_port :: int
  socket_open :: bool
  loop :: loop_state

definition TCPServer :: "platform \<Rightarrow> int \<Rightarrow> process \<Rightarrow> exn + (tcp_server \<times> process)" where
  "TCPServer pf n p =
     (case port_state pf n of
        Free \<Rightarrow>
          Inr (\<lparr>server_port = n, socket_open = True, loop = Not_started\<rparr>, emit (Bind n) p)
      | InUse \<Rightarrow> Inl OSError
      | Denied \<Rightarrow> Inl PermissionError)"

definition shutdown :: "tcp_server \<Rightarrow> tcp_server option" where
  "shutdown srv =
     (case loop srv of
        Not_started \<Rightarrow> None
      | Serving \<Rightarrow> None
      | Finished \<Rightarrow> Some srv)"

definition server_close :: "tcp_server \<Rightarrow> process \<Rightarrow> tcp_server \<times> process" where
  "server_close srv p =
     (if socket_open srv
      then (srv\<lparr>socket_open := False\<rparr>, emit (Close (server_port srv)) p)
      else (srv, p))"

subsection \<open>Signals\<close>

text \<open>
  \<^verbatim>\<open>
  def signal_handler(sig, frame):
      print("\n... Received interrupt signal...")
      sys.exit(0)
  \<close>
\<close>

definition signal_handler :: "process \<Rightarrow> unit result \<times> process" where
  "signal_handler p = (Raise (SystemExit 0), print Msg_received_interrupt p)"

definition deliver_sigint :: "process \<Rightarrow> unit result \<times> process" where
  "deliver_sigint p =
     (case sigint p of
        Default_int_handler \<Rightarrow> (Raise KeyboardInterrupt, p)
      | Signal_handler \<Rightarrow> signal_handler p)"

text \<open>
  What reaches the process while the accept loop waits: a connection, which is
  handled and the loop goes on, or an interrupt, which runs the installed handler in
  the main thread. An exception leaves the loop through its \<^verbatim>\<open>finally\<close> clause. When
  the inputs are used up the loop waits for ever. An interrupt that arrives before
  the loop is entered is not modelled.
\<close>

datatype input = Request | Interrupt

fun serve_forever :: "tcp_server \<Rightarrow> input list \<Rightarrow> process \<Rightarrow> unit result \<times> tcp_server \<times> process" where
  "serve_forever srv [] p = (Blocked, srv\<lparr>loop := Serving\<rparr>, p)"
| "serve_forever srv (Request # ins) p = serve_forever srv ins (emit Handle_request p)"
| "serve_forever srv (Interrupt # ins) p =
     (case deliver_sigint p of
        (Return u, p') \<Rightarrow> serve_forever srv ins p'
      | (Raise e, p') \<Rightarrow> (Raise e, srv\<lparr>loop := Finished\<rparr>, p')
      | (Blocked, p') \<Rightarrow> (Blocked, srv\<lparr>loop := Serving\<rparr>, p'))"

section \<open>GameServer\<close>

record game_server =
  port :: int
  directory :: string
  httpd :: "tcp_server option"

text \<open>
  \<^verbatim>\<open>
  def __init__(self, port=8000, directory=None):
      self.port = port
      self.directory = directory or os.getcwd()
      self.httpd = None
  \<close>
  \<^verbatim>\<open>directory or os.getcwd()\<close> takes the current directory for \<^verbatim>\<open>None\<close> and for
  the empty string.
\<close>

definition GameServer :: "int \<Rightarrow> string option \<Rightarrow> process \<Rightarrow> game_server" where
  "GameServer n dir p =
     \<lparr>port = n,
      directory = (case dir of None \<Rightarrow> cwd p | Some d \<Rightarrow> if d = [] then cwd p else d),
      httpd = None\<rparr>"

text \<open>Python's \<^verbatim>\<open>str\<close> of an integer, for the URL \<^verbatim>\<open>f'http://localhost:{self.port}'\<close>.\<close>

fun str_nat :: "nat \<Rightarrow> string" where
  "str_nat n =
     (if n < 10 then [''0123456789'' ! n]
      else str_nat (n div 10) @ [''0123456789'' ! (n mod 10)])"

definition str :: "int \<Rightarrow> string" where
  "str i = (if i < 0 then CHR ''-'' # str_nat (nat (- i)) else str_nat (nat i))"

definition url :: "int \<Rightarrow> string" where
  "url n = ''http://localhost:'' @ str n"

definition chrome_command :: "int \<Rightarrow> string list" where
  "chrome_command n = [''open'', ''-a'', ''Google Chrome'', url n]"

definition firefox_command :: "int \<Rightarrow> string list" where
  "firefox_command n = [''open'', ''-a'', ''Firefox'', url n]"

text \<open>
  The browser block of \<^verbatim>\<open>start\<close> (lines 48 to 61):
  \<^verbatim>\<open>
  try:
      import subprocess
      subprocess.run(['open', '-a', 'Google Chrome', url], check=False, capture_output=True)
  except:
      try:
          subprocess.run(['open', '-a', 'Firefox', url], check=False, capture_output=True)
      except:
          webbrowser.open(url)
  \<close>
  An \<^verbatim>\<open>except\<close> branch is entered only when \<^verbatim>\<open>subprocess.run\<close> raises.
  \<^verbatim>\<open>webbrowser.open\<close> returns a boolean and does not raise; its value is dropped.
  The trace records each attempt: \<open>Run\<close> for a call of \<^verbatim>\<open>subprocess.run\<close>,
  \<open>Browser\<close> for the call of \<^verbatim>\<open>webbrowser.open\<close>.
\<close>

definition open_browser :: "platform \<Rightarrow> int \<Rightarrow> process \<Rightarrow> process" where
  "open_browser pf n p =
     (let p1 = emit (Run (chrome_command n)) p
      in case run_command pf (chrome_command n) of
           Exited rc \<Rightarrow> p1
         | CannotStart \<Rightarrow>
             (let p2 = emit (Run (firefox_command n)) p1
              in case run_command pf (firefox_command n) of
                   Exited rc \<Rightarrow> p2
                 | CannotStart \<Rightarrow> emit (Browser (url n)) p2))"

text \<open>
  \<^verbatim>\<open>
  def stop(self):
      if self.httpd:
          print("\n... Stopping server...")
          self.httpd.shutdown()
          self.httpd.server_close()
          print("... Server stopped")
  \<close>
\<close>

definition stop :: "game_server \<Rightarrow> process \<Rightarrow> unit result \<times> game_server \<times> process" where
  "stop gs p =
     (case httpd gs of
        None \<Rightarrow> (Return (), gs, p)
      | Some srv \<Rightarrow>
          (let p1 = print Msg_stopping p
           in case shutdown srv of
                None \<Rightarrow> (Blocked, gs, p1)
              | Some srv1 \<Rightarrow>
                  (let (srv2, p2) = server_close srv1 p1
                   in (Return (), gs\<lparr>httpd := Some srv2\<rparr>, print Msg_stopped p2))))"

definition banner :: "game_server \<Rightarrow> process \<Rightarrow> process" where
  "banner gs p =
     print Msg_rule (print Msg_press_ctrl_c (print (Msg_url (port gs))
       (print (Msg_serving (directory gs)) (print Msg_starting p))))"

text \<open>
  \<^verbatim>\<open>
  def start(self):
      os.chdir(self.directory)
      self.httpd = socketserver.TCPServer(("", self.port), GameHTTPRequestHandler)
      print(...)                      # five lines
      ...                             # the browser block
      try:
          self.httpd.serve_forever()
      except KeyboardInterrupt:
          self.stop()
  \<close>
  The inputs are what arrives while the accept loop runs.
\<close>

definition start :: "platform \<Rightarrow> input list \<Rightarrow> game_server \<Rightarrow> process \<Rightarrow> unit result \<times> game_server \<times> process" where
  "start pf ins gs p =
     (case os_chdir pf (directory gs) p of
        Inl e \<Rightarrow> (Raise e, gs, p)
      | Inr p1 \<Rightarrow>
          (case TCPServer pf (port gs) p1 of
             Inl e \<Rightarrow> (Raise e, gs, p1)
           | Inr (srv, p2) \<Rightarrow>
               (let p3 = banner gs p2;
                    p4 = open_browser pf (port gs) p3;
                    (r, srv', p5) = serve_forever srv ins p4;
                    gs' = gs\<lparr>httpd := Some srv'\<rparr>
                in case r of
                     Raise KeyboardInterrupt \<Rightarrow> stop gs' p5
                   | _ \<Rightarrow> (r, gs', p5))))"

text \<open>The process once \<^verbatim>\<open>start\<close> has changed directory and bound the port.\<close>

definition after_bind :: "game_server \<Rightarrow> process \<Rightarrow> process" where
  "after_bind gs p = emit (Bind (port gs)) (emit (Chdir (directory gs)) (p\<lparr>cwd := directory gs\<rparr>))"

section \<open>The launcher\<close>

text \<open>
  Lines 83 to 94, the defaults and the command line; \<open>argv\<close> is \<^verbatim>\<open>sys.argv\<close>, with
  the script's name first:
  \<^verbatim>\<open>
  PORT = 8000
  GAME_DIR = os.getcwd()
  if len(sys.argv) > 1:
      try:
          PORT = int(sys.argv[1])
      except ValueError:
          GAME_DIR = sys.argv[1]
          if len(sys.argv) > 2:
              PORT = int(sys.argv[2])
  \<close>
  The second \<^verbatim>\<open>int\<close> is inside the \<^verbatim>\<open>except\<close> clause, so its \<^verbatim>\<open>ValueError\<close> is
  not caught.
\<close>

definition parse_args :: "platform \<Rightarrow> string list \<Rightarrow> process \<Rightarrow> exn + (int \<times> string)" where
  "parse_args pf argv p =
     (let PORT = 8000; GAME_DIR = cwd p
      in if length argv > 1
         then (case int_of pf (argv ! 1) of
                 Some n \<Rightarrow> Inr (n, GAME_DIR)
               | None \<Rightarrow>
                   (let GAME_DIR = argv ! 1
                    in if length argv > 2
                       then (case int_of pf (argv ! 2) of
                               Some n \<Rightarrow> Inr (n, GAME_DIR)
                             | None \<Rightarrow> Inl ValueError)
                       else Inr (PORT, GAME_DIR)))
         else Inr (PORT, GAME_DIR))"

text \<open>
  Lines 96 to 101, from the arguments to the server object:
  \<^verbatim>\<open>
  if "iCloud" in GAME_DIR and "~" in GAME_DIR:
      GAME_DIR = os.path.expanduser(GAME_DIR)
  server = GameServer(PORT, GAME_DIR)
  \<close>
\<close>

definition expand_icloud :: "platform \<Rightarrow> string \<Rightarrow> string" where
  "expand_icloud pf GAME_DIR =
     (if contains ''iCloud'' GAME_DIR \<and> contains ''~'' GAME_DIR
      then expanduser pf GAME_DIR else GAME_DIR)"

definition configure :: "platform \<Rightarrow> string list \<Rightarrow> process \<Rightarrow> exn + game_server" where
  "configure pf argv p =
     (case parse_args pf argv p of
        Inl e \<Rightarrow> Inl e
      | Inr (PORT, GAME_DIR) \<Rightarrow> Inr (GameServer PORT (Some (expand_icloud pf GAME_DIR)) p))"

text \<open>
  The script: the handler for \<^verbatim>\<open>SIGINT\<close> is installed first
  (\<^verbatim>\<open>signal.signal(signal.SIGINT, signal_handler)\<close>), then the arguments are read,
  the server is made and started (\<^verbatim>\<open>server.start()\<close>).
\<close>

definition main :: "platform \<Rightarrow> string list \<Rightarrow> input list \<Rightarrow> process \<Rightarrow> unit result \<times> process" where
  "main pf argv ins p =
     (let p1 = p\<lparr>sigint := Signal_handler\<rparr>
      in case configure pf argv p1 of
           Inl e \<Rightarrow> (Raise e, p1)
         | Inr server \<Rightarrow>
             (let (r, server', p2) = start pf ins server p1
              in (r, p2)))"

text \<open>
  The interpreter around the script. The exit status is \<open>None\<close> while the process
  still runs. A script that ends, and \<^verbatim>\<open>sys.exit(0)\<close>, give status 0; an uncaught
  exception is written to the standard error stream as a traceback and gives status
  1 (for \<^verbatim>\<open>KeyboardInterrupt\<close> the interpreter ends the process by the signal, which
  a shell reports as 130).
\<close>

definition run_script :: "platform \<Rightarrow> string list \<Rightarrow> input list \<Rightarrow> process \<Rightarrow> int option \<times> process" where
  "run_script pf argv ins p =
     (case main pf argv ins p of
        (Return u, p') \<Rightarrow> (Some 0, p')
      | (Raise (SystemExit n), p') \<Rightarrow> (Some (n mod 256), p')
      | (Raise KeyboardInterrupt, p') \<Rightarrow> (Some 130, emit (Stderr (Traceback KeyboardInterrupt)) p')
      | (Raise e, p') \<Rightarrow> (Some 1, emit (Stderr (Traceback e)) p')
      | (Blocked, p') \<Rightarrow> (None, p'))"

section \<open>Example platforms\<close>

text \<open>
  Concrete platforms and states on which the definitions are evaluated. \<open>decimal\<close>
  is \<^verbatim>\<open>int\<close> on plain decimal literals with an optional sign.
\<close>

definition digit_val :: "char \<Rightarrow> nat option" where
  "digit_val c =
     map_of [(CHR ''0'', 0), (CHR ''1'', 1), (CHR ''2'', 2), (CHR ''3'', 3), (CHR ''4'', 4),
             (CHR ''5'', 5), (CHR ''6'', 6), (CHR ''7'', 7), (CHR ''8'', 8), (CHR ''9'', 9)] c"

fun digits_val :: "string \<Rightarrow> nat \<Rightarrow> nat option" where
  "digits_val [] acc = Some acc"
| "digits_val (c # cs) acc =
     (case digit_val c of None \<Rightarrow> None | Some d \<Rightarrow> digits_val cs (10 * acc + d))"

definition decimal :: "string \<Rightarrow> int option" where
  "decimal s =
     (case s of
        [] \<Rightarrow> None
      | c # cs \<Rightarrow>
          if c = CHR ''-'' then (if cs = [] then None else map_option (\<lambda>n. - int n) (digits_val cs 0))
          else if c = CHR ''+'' then (if cs = [] then None else map_option int (digits_val cs 0))
          else map_option int (digits_val s 0))"

text \<open>
  A machine without the \<^verbatim>\<open>open\<close> command, where ports 8000 and 9090 are free, the
  ports below 1024 are refused and the others are taken.
\<close>

definition dev_machine :: platform where
  "dev_machine =
     \<lparr>int_of = decimal,
      expanduser = (\<lambda>path. if startswith path ''~'' then ''/home/dev'' @ drop 1 path else path),
      dir_exists = (\<lambda>d. d = ''/home/dev/game'' \<or> d = ''assets''),
      port_state = (\<lambda>n. if n = 8000 \<or> n = 9090 then Free else if n < 1024 then Denied else InUse),
      run_command = (\<lambda>cmd. CannotStart)\<rparr>"

text \<open>
  A machine where \<^verbatim>\<open>open\<close> runs, finds no application named Google Chrome (exit
  status 1) and would start any other application (exit status 0).
\<close>

definition mac_without_chrome :: platform where
  "mac_without_chrome =
     dev_machine\<lparr>run_command :=
       (\<lambda>cmd. if take 3 cmd = [''open'', ''-a'', ''Google Chrome''] then Exited 1
              else if take 1 cmd = [''open''] then Exited 0
              else CannotStart)\<rparr>"

definition fresh_process :: process where
  "fresh_process = \<lparr>cwd = ''/home/dev/game'', sigint = Default_int_handler, trace = []\<rparr>"

text \<open>A server object after \<^verbatim>\<open>start\<close> was interrupted and \<^verbatim>\<open>stop\<close> has run once.\<close>

definition stopped_server :: game_server where
  "stopped_server =
     \<lparr>port = 8000, directory = ''/home/dev/game'',
      httpd = Some \<lparr>server_port = 8000, socket_open = False, loop = Finished\<rparr>\<rparr>"

text \<open>A server object whose accept loop is running.\<close>

definition serving_server :: game_server where
  "serving_server =
     \<lparr>port = 8000, directory = ''/home/dev/game'',
      httpd = Some \<lparr>server_port = 8000, socket_open = True, loop = Serving\<rparr>\<rparr>"

text \<open>
  A server object as \<^verbatim>\<open>start\<close> holds it between line 40, where the listener is
  made, and line 64, where the accept loop is entered.
\<close>

definition bound_server :: game_server where
  "bound_server =
     \<lparr>port = 8000, directory = ''/home/dev/game'',
      httpd = Some \<lparr>server_port = 8000, socket_open = True, loop = Not_started\<rparr>\<rparr>"

text \<open>
  A server object as \<^verbatim>\<open>start\<close> passes it to \<^verbatim>\<open>stop\<close>: \<^verbatim>\<open>KeyboardInterrupt\<close> has
  left the accept loop and the socket is still open.
\<close>

definition interrupted_server :: game_server where
  "interrupted_server =
     \<lparr>port = 8000, directory = ''/home/dev/game'',
      httpd = Some \<lparr>server_port = 8000, socket_open = True, loop = Finished\<rparr>\<rparr>"

text \<open>A handler that answers a request whose request line names no protocol version.\<close>

definition simple_request_handler :: handler where
  "simple_request_handler = \<lparr>request_version = ''HTTP/0.9'', headers_buffer = [], wfile = []\<rparr>"

text \<open>A handler that has buffered the status line of a \<^verbatim>\<open>404\<close> response.\<close>

definition not_found_handler :: handler where
  "not_found_handler =
     \<lparr>request_version = ''HTTP/1.1'',
      headers_buffer = [''HTTP/1.0 404 File not found'' @ crlf],
      wfile = []\<rparr>"

text \<open>The platform's guess of a content type, for a machine that knows two extensions.\<close>

definition example_guess :: mime_guess where
  "example_guess path =
     (if endswith path ''.png'' then Some ''image/png''
      else if endswith path ''.js'' then Some ''text/javascript''
      else None)"

section \<open>Properties of the request handler\<close>

lemma endswith_iff: "endswith s suffix \<longleftrightarrow> (\<exists>stem. s = stem @ suffix)"
proof
  assume e: "endswith s suffix"
  then have "s = take (length s - length suffix) s @ suffix"
    unfolding endswith_def by (metis append_take_drop_id)
  then show "\<exists>stem. s = stem @ suffix" ..
next
  assume "\<exists>stem. s = stem @ suffix"
  then show "endswith s suffix"
    unfolding endswith_def by auto
qed

text \<open>
  C3. A path that ends in \<^verbatim>\<open>.js\<close> is served as \<^verbatim>\<open>application/javascript\<close>, one
  that ends in \<^verbatim>\<open>.css\<close> as \<^verbatim>\<open>text/css\<close>, one that ends in \<^verbatim>\<open>.html\<close> as
  \<^verbatim>\<open>text/html\<close>; every other path gets the platform's guess, and
  \<^verbatim>\<open>application/octet-stream\<close> when the platform has none.
\<close>

theorem guess_type_overrides:
  "((\<exists>stem. path = stem @ ''.js'') \<longrightarrow>
      guess_type platform_guess path = ''application/javascript'') \<and>
   ((\<exists>stem. path = stem @ ''.css'') \<longrightarrow>
      guess_type platform_guess path = ''text/css'') \<and>
   ((\<exists>stem. path = stem @ ''.html'') \<longrightarrow>
      guess_type platform_guess path = ''text/html'') \<and>
   (\<not> (\<exists>stem. path = stem @ ''.js'') \<and> \<not> (\<exists>stem. path = stem @ ''.css'') \<and>
    \<not> (\<exists>stem. path = stem @ ''.html'') \<longrightarrow>
      (\<forall>t. platform_guess path = Some t \<longrightarrow> guess_type platform_guess path = t) \<and>
      (platform_guess path = None \<longrightarrow>
         guess_type platform_guess path = ''application/octet-stream''))"
proof -
  have js_css: "\<not> endswith (stem @ ''.css'') ''.js''" for stem
    by (simp add: endswith_def)
  have js_html: "\<not> endswith (stem @ ''.html'') ''.js''" for stem
    by (simp add: endswith_def)
  have css_html: "\<not> endswith (stem @ ''.html'') ''.css''" for stem
    by (simp add: endswith_def)
  show ?thesis
    unfolding guess_type_def base_guess_type_def Let_def
    using js_css js_html css_html
    by (auto simp: endswith_iff)
qed

text \<open>
  On a machine that knows \<^verbatim>\<open>.png\<close> and guesses \<^verbatim>\<open>text/javascript\<close> for \<^verbatim>\<open>.js\<close>:
  the three overrides win, a known extension keeps the platform's type and an unknown
  one falls back.
\<close>

theorem guess_type_overrides_witness:
  "(\<exists>stem. ''index.js'' = stem @ ''.js'') \<and>
   guess_type example_guess ''index.js'' = ''application/javascript'' \<and>
   (\<exists>stem. ''styles.css'' = stem @ ''.css'') \<and>
   guess_type example_guess ''styles.css'' = ''text/css'' \<and>
   (\<exists>stem. ''index.html'' = stem @ ''.html'') \<and>
   guess_type example_guess ''index.html'' = ''text/html'' \<and>
   example_guess ''logo.png'' = Some ''image/png'' \<and>
   guess_type example_guess ''logo.png'' = ''image/png'' \<and>
   example_guess ''save.dat'' = None \<and>
   guess_type example_guess ''save.dat'' = ''application/octet-stream''"
proof -
  have js: "\<exists>stem. ''index.js'' = stem @ ''.js''"
    by (rule exI [of _ "''index''"]) simp
  have css: "\<exists>stem. ''styles.css'' = stem @ ''.css''"
    by (rule exI [of _ "''styles''"]) simp
  have html: "\<exists>stem. ''index.html'' = stem @ ''.html''"
    by (rule exI [of _ "''index''"]) simp
  have png: "\<not> (\<exists>stem. ''logo.png'' = stem @ ''.js'') \<and> \<not> (\<exists>stem. ''logo.png'' = stem @ ''.css'') \<and>
    \<not> (\<exists>stem. ''logo.png'' = stem @ ''.html'')"
    unfolding endswith_iff [symmetric] by (simp add: endswith_def)
  have dat: "\<not> (\<exists>stem. ''save.dat'' = stem @ ''.js'') \<and> \<not> (\<exists>stem. ''save.dat'' = stem @ ''.css'') \<and>
    \<not> (\<exists>stem. ''save.dat'' = stem @ ''.html'')"
    unfolding endswith_iff [symmetric] by (simp add: endswith_def)
  have g1: "example_guess ''logo.png'' = Some ''image/png''"
    by (simp add: example_guess_def endswith_def)
  have g2: "example_guess ''save.dat'' = None"
    by (simp add: example_guess_def endswith_def)
  note png_rule =
    conjunct2 [OF conjunct2 [OF conjunct2 [OF guess_type_overrides [of "''logo.png''" example_guess]]]]
  note dat_rule =
    conjunct2 [OF conjunct2 [OF conjunct2 [OF guess_type_overrides [of "''save.dat''" example_guess]]]]
  have r1: "guess_type example_guess ''index.js'' = ''application/javascript''"
    by (rule mp [OF conjunct1 [OF guess_type_overrides] js])
  have r2: "guess_type example_guess ''styles.css'' = ''text/css''"
    by (rule mp [OF conjunct1 [OF conjunct2 [OF guess_type_overrides]] css])
  have r3: "guess_type example_guess ''index.html'' = ''text/html''"
    by (rule mp [OF conjunct1 [OF conjunct2 [OF conjunct2 [OF guess_type_overrides]]] html])
  have r4: "guess_type example_guess ''logo.png'' = ''image/png''"
    by (rule mp [OF spec [OF conjunct1 [OF mp [OF png_rule png]]] g1])
  have r5: "guess_type example_guess ''save.dat'' = ''application/octet-stream''"
    by (rule mp [OF conjunct2 [OF mp [OF dat_rule dat]] g2])
  from js css html g1 g2 r1 r2 r3 r4 r5 show ?thesis
    by (intro conjI)
qed

text \<open>
  C2, as the code has it. When the request's version is not \<^verbatim>\<open>HTTP/0.9\<close>,
  \<^verbatim>\<open>end_headers\<close> writes one block: the lines buffered so far (the status line and
  the headers of the base handler), then the three CORS headers with exactly these
  values, then the blank line. The base handler ends the headers of every response
  (files, listings, redirects, errors) by calling this method, whatever the path and
  the status code.
\<close>

theorem end_headers_sends_cors:
  "request_version h \<noteq> ''HTTP/0.9'' \<Longrightarrow>
   end_headers h =
     h\<lparr>wfile := wfile h @ [concat (headers_buffer h @ cors_headers @ [crlf])],
       headers_buffer := []\<rparr>"
  by (simp add: end_headers_def send_header_def base_end_headers_def flush_headers_def
      cors_headers_def)

text \<open>The headers of a \<^verbatim>\<open>404\<close> response, as written to the connection.\<close>

theorem end_headers_sends_cors_witness:
  "request_version not_found_handler \<noteq> ''HTTP/0.9'' \<and>
   wfile (end_headers not_found_handler) =
     [''HTTP/1.0 404 File not found'' @ crlf @
      ''Access-Control-Allow-Origin: *'' @ crlf @
      ''Access-Control-Allow-Methods: GET, POST, OPTIONS'' @ crlf @
      ''Access-Control-Allow-Headers: *'' @ crlf @ crlf]"
proof -
  have v: "request_version not_found_handler \<noteq> ''HTTP/0.9''"
    by (simp add: not_found_handler_def)
  have "wfile (end_headers not_found_handler) =
      wfile not_found_handler @
        [concat (headers_buffer not_found_handler @ cors_headers @ [crlf])]"
    by (simp add: end_headers_sends_cors [OF v])
  then show ?thesis
    using v by (simp add: not_found_handler_def cors_headers_def header_line_def)
qed

text \<open>
  \<^verbatim>\<open>parse_request\<close> starts from \<^verbatim>\<open>request_version = 'HTTP/0.9'\<close>. A request line
  without a protocol version (\<^verbatim>\<open>GET /index.html\<close>) is answered at that version, and
  a request line with a malformed or unsupported version is rejected (status 400 or
  505) before the version is stored. Such a response carries no header at all, the
  CORS headers included.
\<close>

theorem end_headers_without_version_counterexample:
  "end_headers simple_request_handler = simple_request_handler \<and>
   wfile (end_headers simple_request_handler) = []"
  by (simp add: end_headers_def send_header_def base_end_headers_def simple_request_handler_def)

section \<open>Properties of the launcher\<close>

lemma decimal_9090: "decimal ''9090'' = Some 9090"
  by (simp add: decimal_def digit_val_def)

lemma decimal_80: "decimal ''80'' = Some 80"
  by (simp add: decimal_def digit_val_def)

lemma decimal_assets: "decimal ''assets'' = None"
  by (simp add: decimal_def digit_val_def)

lemma decimal_nowhere: "decimal ''nowhere'' = None"
  by (simp add: decimal_def digit_val_def)

lemma decimal_fast: "decimal ''fast'' = None"
  by (simp add: decimal_def digit_val_def)

lemma int_of_dev_machine: "int_of dev_machine = decimal"
  by (simp add: dev_machine_def)

lemma dev_machine_dirs:
  "\<not> dir_exists dev_machine ''nowhere''" "dir_exists dev_machine ''assets''"
  "dir_exists dev_machine ''/home/dev/game''"
  by (simp_all add: dev_machine_def)

lemma dev_machine_ports:
  "port_state dev_machine 5000 = InUse" "port_state dev_machine 80 = Denied"
  "port_state dev_machine 8000 = Free"
  by (simp_all add: dev_machine_def)

lemma not_icloud: "expand_icloud pf ''nowhere'' = ''nowhere''" "expand_icloud pf ''assets'' = ''assets''"
  "expand_icloud pf ''/home/dev/game'' = ''/home/dev/game''"
  by (simp_all add: expand_icloud_def startswith_def)

lemma configure_sigint [simp]: "configure pf argv (p\<lparr>sigint := s\<rparr>) = configure pf argv p"
  by (simp add: configure_def parse_args_def GameServer_def split: sum.splits)

lemma configure_nowhere:
  "configure dev_machine [''server.py'', ''nowhere''] fresh_process =
     Inr \<lparr>port = 8000, directory = ''nowhere'', httpd = None\<rparr>"
  by (simp add: configure_def parse_args_def int_of_dev_machine decimal_nowhere not_icloud
      GameServer_def)

lemma configure_assets_80:
  "configure dev_machine [''server.py'', ''assets'', ''80''] fresh_process =
     Inr \<lparr>port = 80, directory = ''assets'', httpd = None\<rparr>"
  by (simp add: configure_def parse_args_def int_of_dev_machine decimal_assets decimal_80
      not_icloud GameServer_def)

lemma configure_default:
  "configure dev_machine [''server.py''] fresh_process =
     Inr \<lparr>port = 8000, directory = ''/home/dev/game'', httpd = None\<rparr>"
  by (simp add: configure_def parse_args_def not_icloud GameServer_def fresh_process_def)

text \<open>
  C4. After the arguments are read (lines 83 to 94): without arguments the port is
  8000 and the directory is the current working directory; one argument that
  \<^verbatim>\<open>int\<close> accepts is the port, and the directory is the current working directory;
  one argument that \<^verbatim>\<open>int\<close> rejects is the directory, and the port is 8000; a first
  argument that \<^verbatim>\<open>int\<close> rejects and a second that it accepts are the directory and
  the port.
\<close>

theorem parse_args_cases:
  "(length argv \<le> 1 \<longrightarrow> parse_args pf argv p = Inr (8000, cwd p)) \<and>
   (int_of pf a = Some n \<longrightarrow> parse_args pf [prog, a] p = Inr (n, cwd p)) \<and>
   (int_of pf a = None \<longrightarrow> parse_args pf [prog, a] p = Inr (8000, a)) \<and>
   (int_of pf a = None \<and> int_of pf b = Some n \<longrightarrow>
      parse_args pf (prog # a # b # rest) p = Inr (n, a))"
  by (simp add: parse_args_def)

text \<open>The four invocations on the example machine.\<close>

theorem parse_args_cases_witness:
  "length [''server.py''] \<le> 1 \<and>
   parse_args dev_machine [''server.py''] fresh_process = Inr (8000, ''/home/dev/game'') \<and>
   int_of dev_machine ''9090'' = Some 9090 \<and>
   parse_args dev_machine [''server.py'', ''9090''] fresh_process = Inr (9090, ''/home/dev/game'') \<and>
   int_of dev_machine ''assets'' = None \<and>
   parse_args dev_machine [''server.py'', ''assets''] fresh_process = Inr (8000, ''assets'') \<and>
   parse_args dev_machine [''server.py'', ''assets'', ''9090''] fresh_process = Inr (9090, ''assets'')"
proof -
  have i1: "int_of dev_machine ''9090'' = Some 9090"
    by (simp add: int_of_dev_machine decimal_9090)
  have i2: "int_of dev_machine ''assets'' = None"
    by (simp add: int_of_dev_machine decimal_assets)
  have c: "cwd fresh_process = ''/home/dev/game''"
    by (simp add: fresh_process_def)
  note t1 = parse_args_cases [where argv = "[''server.py'']" and pf = dev_machine
      and p = fresh_process and a = "''9090''" and n = 9090 and prog = "''server.py''"]
  note t2 = parse_args_cases [where pf = dev_machine and p = fresh_process
      and a = "''assets''" and b = "''9090''" and n = 9090 and prog = "''server.py''"
      and rest = "[]"]
  have r1: "parse_args dev_machine [''server.py''] fresh_process = Inr (8000, ''/home/dev/game'')"
    using conjunct1 [OF t1] c by simp
  have r2: "parse_args dev_machine [''server.py'', ''9090''] fresh_process = Inr (9090, ''/home/dev/game'')"
    using conjunct1 [OF conjunct2 [OF t1]] i1 c by simp
  have r3: "parse_args dev_machine [''server.py'', ''assets''] fresh_process = Inr (8000, ''assets'')"
    using conjunct1 [OF conjunct2 [OF conjunct2 [OF t2]]] i2 by simp
  have r4: "parse_args dev_machine [''server.py'', ''assets'', ''9090''] fresh_process = Inr (9090, ''assets'')"
    using conjunct2 [OF conjunct2 [OF conjunct2 [OF t2]]] i1 i2 by simp
  from i1 i2 r1 r2 r3 r4 show ?thesis by simp
qed

text \<open>
  C9. When \<^verbatim>\<open>int\<close> accepts the first argument, whatever follows it is not read: the
  port is the first argument and the directory is the current working directory.
\<close>

theorem parse_args_integer_first:
  "int_of pf a = Some n \<Longrightarrow> parse_args pf (prog # a # rest) p = Inr (n, cwd p)"
  by (simp add: parse_args_def)

text \<open>A directory given after the port is ignored.\<close>

theorem parse_args_integer_first_witness:
  "int_of dev_machine ''9090'' = Some 9090 \<and>
   parse_args dev_machine [''server.py'', ''9090'', ''assets''] fresh_process =
     Inr (9090, ''/home/dev/game'')"
proof -
  have i1: "int_of dev_machine ''9090'' = Some 9090"
    by (simp add: int_of_dev_machine decimal_9090)
  from parse_args_integer_first [OF i1, of "''server.py''" "[''assets'']" fresh_process] i1
  show ?thesis by (simp add: fresh_process_def)
qed

text \<open>
  C10. When \<^verbatim>\<open>int\<close> rejects the first argument and the second, the second
  \<^verbatim>\<open>ValueError\<close> is not caught: no server object is made, the script ends with that
  exception before \<^verbatim>\<open>start\<close>, the process has done nothing (no directory change, no
  socket) but install the signal handler, and the interpreter writes the traceback
  and exits with status 1.
\<close>

theorem two_non_integers_value_error:
  assumes "int_of pf a = None" and "int_of pf b = None"
  shows "configure pf (prog # a # b # rest) p = Inl ValueError \<and>
         main pf (prog # a # b # rest) ins p = (Raise ValueError, p\<lparr>sigint := Signal_handler\<rparr>) \<and>
         run_script pf (prog # a # b # rest) ins p =
           (Some 1, p\<lparr>sigint := Signal_handler, trace := trace p @ [Stderr (Traceback ValueError)]\<rparr>)"
proof -
  have c: "configure pf (prog # a # b # rest) q = Inl ValueError" for q
    using assms by (simp add: configure_def parse_args_def)
  have m: "main pf (prog # a # b # rest) ins p = (Raise ValueError, p\<lparr>sigint := Signal_handler\<rparr>)"
    by (simp add: main_def c)
  have "run_script pf (prog # a # b # rest) ins p =
      (Some 1, p\<lparr>sigint := Signal_handler, trace := trace p @ [Stderr (Traceback ValueError)]\<rparr>)"
    by (simp add: run_script_def m emit_def)
  with c m show ?thesis by simp
qed

text \<open>Two words on the command line, and inputs that are never read.\<close>

theorem two_non_integers_value_error_witness:
  "int_of dev_machine ''assets'' = None \<and> int_of dev_machine ''fast'' = None \<and>
   run_script dev_machine [''server.py'', ''assets'', ''fast''] [Request, Interrupt] fresh_process =
     (Some 1, \<lparr>cwd = ''/home/dev/game'', sigint = Signal_handler,
               trace = [Stderr (Traceback ValueError)]\<rparr>)"
proof -
  have i1: "int_of dev_machine ''assets'' = None"
    by (simp add: int_of_dev_machine decimal_assets)
  have i2: "int_of dev_machine ''fast'' = None"
    by (simp add: int_of_dev_machine decimal_fast)
  from two_non_integers_value_error [OF i1 i2, of "''server.py''" "[]" fresh_process "[Request, Interrupt]"]
    i1 i2
  show ?thesis by (simp add: fresh_process_def)
qed

section \<open>Properties of the server\<close>

subsection \<open>What each step adds to the trace\<close>

lemma banner_trace:
  "trace (banner gs p) =
     trace p @ [Stdout Msg_starting, Stdout (Msg_serving (directory gs)), Stdout (Msg_url (port gs)),
                Stdout Msg_press_ctrl_c, Stdout Msg_rule]"
  by (simp add: banner_def print_def emit_def)

lemma banner_sigint [simp]: "sigint (banner gs p) = sigint p"
  by (simp add: banner_def print_def emit_def)

lemma open_browser_sigint [simp]: "sigint (open_browser pf n p) = sigint p"
  by (simp add: open_browser_def emit_def Let_def split: run_result.splits)

lemma open_browser_trace:
  "\<exists>es. trace (open_browser pf n p) = trace p @ es \<and> (\<forall>m. Stderr m \<notin> set es)"
  by (simp add: open_browser_def emit_def Let_def split: run_result.splits)

text \<open>Where \<^verbatim>\<open>open\<close> cannot be started, the chain runs to the default opener.\<close>

lemma open_browser_without_open_command:
  "trace (open_browser dev_machine 8000 fresh_process) =
     [Run (chrome_command 8000), Run (firefox_command 8000), Browser (url 8000)]"
  by (simp add: open_browser_def emit_def Let_def dev_machine_def fresh_process_def)

lemma serve_forever_interrupt:
  "sigint p = Signal_handler \<Longrightarrow> Interrupt \<in> set ins \<Longrightarrow>
   \<exists>p'. serve_forever srv ins p = (Raise (SystemExit 0), srv\<lparr>loop := Finished\<rparr>, p') \<and>
        sigint p' = Signal_handler \<and>
        (\<exists>k. trace p' = trace p @ replicate k Handle_request @ [Stdout Msg_received_interrupt])"
proof (induction ins arbitrary: p)
  case Nil
  then show ?case by simp
next
  case (Cons i ins)
  show ?case
  proof (cases i)
    case Request
    with Cons.prems have "Interrupt \<in> set ins" by simp
    moreover have "sigint (emit Handle_request p) = Signal_handler"
      using Cons.prems by (simp add: emit_def)
    ultimately obtain p' k where
      s: "serve_forever srv ins (emit Handle_request p) = (Raise (SystemExit 0), srv\<lparr>loop := Finished\<rparr>, p')"
      and h: "sigint p' = Signal_handler"
      and t: "trace p' = trace (emit Handle_request p) @ replicate k Handle_request @ [Stdout Msg_received_interrupt]"
      using Cons.IH by blast
    have "\<exists>j. trace p' = trace p @ replicate j Handle_request @ [Stdout Msg_received_interrupt]"
      using t by (intro exI [of _ "Suc k"]) (simp add: emit_def)
    with s h Request show ?thesis by simp
  next
    case Interrupt
    have "serve_forever srv (Interrupt # ins) p =
        (Raise (SystemExit 0), srv\<lparr>loop := Finished\<rparr>, print Msg_received_interrupt p)"
      using Cons.prems by (simp add: deliver_sigint_def signal_handler_def)
    moreover have "trace (print Msg_received_interrupt p) =
        trace p @ replicate 0 Handle_request @ [Stdout Msg_received_interrupt]"
      by (simp add: print_def emit_def)
    moreover have "sigint (print Msg_received_interrupt p) = Signal_handler"
      using Cons.prems by (simp add: print_def emit_def)
    ultimately show ?thesis using Interrupt by blast
  qed
qed

lemma start_no_directory:
  "\<not> dir_exists pf (directory gs) \<Longrightarrow> start pf ins gs p = (Raise FileNotFoundError, gs, p)"
  by (simp add: start_def os_chdir_def)

lemma start_port_in_use:
  "dir_exists pf (directory gs) \<Longrightarrow> port_state pf (port gs) = InUse \<Longrightarrow>
   start pf ins gs p =
     (Raise OSError, gs, p\<lparr>cwd := directory gs, trace := trace p @ [Chdir (directory gs)]\<rparr>)"
  by (simp add: start_def os_chdir_def TCPServer_def emit_def)

lemma start_port_denied:
  "dir_exists pf (directory gs) \<Longrightarrow> port_state pf (port gs) = Denied \<Longrightarrow>
   start pf ins gs p =
     (Raise PermissionError, gs, p\<lparr>cwd := directory gs, trace := trace p @ [Chdir (directory gs)]\<rparr>)"
  by (simp add: start_def os_chdir_def TCPServer_def emit_def)

lemma start_bound:
  "dir_exists pf (directory gs) \<Longrightarrow> port_state pf (port gs) = Free \<Longrightarrow>
   start pf ins gs p =
     (case serve_forever \<lparr>server_port = port gs, socket_open = True, loop = Not_started\<rparr> ins
             (open_browser pf (port gs) (banner gs (after_bind gs p))) of
        (r, srv', p5) \<Rightarrow>
          (case r of
             Raise KeyboardInterrupt \<Rightarrow> stop (gs\<lparr>httpd := Some srv'\<rparr>) p5
           | _ \<Rightarrow> (r, gs\<lparr>httpd := Some srv'\<rparr>, p5)))"
  by (simp add: start_def os_chdir_def TCPServer_def after_bind_def Let_def)

lemma serve_forever_trace: "\<exists>evs. trace (snd (snd (serve_forever srv ins p))) = trace p @ evs"
proof (induction ins arbitrary: p)
  case Nil
  then show ?case by simp
next
  case (Cons i ins)
  show ?case
  proof (cases i)
    case Request
    obtain evs where "trace (snd (snd (serve_forever srv ins (emit Handle_request p)))) =
        trace (emit Handle_request p) @ evs"
      using Cons.IH by blast
    then show ?thesis using Request by (simp add: emit_def)
  next
    case Interrupt
    then show ?thesis
      by (cases "sigint p")
        (simp_all add: deliver_sigint_def signal_handler_def print_def emit_def)
  qed
qed

lemma stop_trace: "\<exists>evs. trace (snd (snd (stop gs p))) = trace p @ evs"
  by (simp add: stop_def shutdown_def server_close_def print_def emit_def Let_def
      split: option.splits loop_state.splits)

lemma start_trace_bound:
  assumes "dir_exists pf (directory gs)" and "port_state pf (port gs) = Free"
  shows "\<exists>evs. trace (snd (snd (start pf ins gs p))) =
           trace p @ Chdir (directory gs) # Bind (port gs) # evs"
proof -
  let ?q = "open_browser pf (port gs) (banner gs (after_bind gs p))"
  let ?srv = "\<lparr>server_port = port gs, socket_open = True, loop = Not_started\<rparr>"
  obtain es where q: "trace ?q = trace p @ Chdir (directory gs) # Bind (port gs) #
      ([Stdout Msg_starting, Stdout (Msg_serving (directory gs)), Stdout (Msg_url (port gs)),
        Stdout Msg_press_ctrl_c, Stdout Msg_rule] @ es)"
    using open_browser_trace [of pf "port gs" "banner gs (after_bind gs p)"]
    by (auto simp: banner_trace after_bind_def emit_def)
  obtain r srv' p5 where s: "serve_forever ?srv ins ?q = (r, srv', p5)"
    by (cases "serve_forever ?srv ins ?q") auto
  obtain evs where t5: "trace p5 = trace ?q @ evs"
    using serve_forever_trace [of ?srv ins ?q] s by auto
  show ?thesis
  proof (cases "r = Raise KeyboardInterrupt")
    case True
    obtain evs' where "trace (snd (snd (stop (gs\<lparr>httpd := Some srv'\<rparr>) p5))) = trace p5 @ evs'"
      using stop_trace by blast
    then show ?thesis
      using True s t5 q by (simp add: start_bound [OF assms])
  next
    case False
    then have "start pf ins gs p = (r, gs\<lparr>httpd := Some srv'\<rparr>, p5)"
      using s by (simp add: start_bound [OF assms] split: result.splits exn.splits)
    then show ?thesis using t5 q by simp
  qed
qed

subsection \<open>Starting\<close>

text \<open>
  C5. \<^verbatim>\<open>start\<close> changes the working directory to the configured directory before
  it binds: when the directory does not exist it raises \<^verbatim>\<open>FileNotFoundError\<close> and
  nothing has happened, no bind either; when the port is taken or refused it raises
  \<^verbatim>\<open>OSError\<close> or \<^verbatim>\<open>PermissionError\<close> with the directory already changed; when
  both succeed the first two effects are the directory change and then the bind. The
  launcher catches neither exception, so in both fatal cases the interpreter writes
  the traceback and the process exits with status 1.
\<close>

theorem start_chdir_before_bind:
  "(\<not> dir_exists pf (directory gs) \<longrightarrow>
      start pf ins gs p = (Raise FileNotFoundError, gs, p)) \<and>
   (dir_exists pf (directory gs) \<and> port_state pf (port gs) = InUse \<longrightarrow>
      start pf ins gs p =
        (Raise OSError, gs, p\<lparr>cwd := directory gs, trace := trace p @ [Chdir (directory gs)]\<rparr>)) \<and>
   (dir_exists pf (directory gs) \<and> port_state pf (port gs) = Denied \<longrightarrow>
      start pf ins gs p =
        (Raise PermissionError, gs,
         p\<lparr>cwd := directory gs, trace := trace p @ [Chdir (directory gs)]\<rparr>)) \<and>
   (dir_exists pf (directory gs) \<and> port_state pf (port gs) = Free \<longrightarrow>
      (\<exists>evs. trace (snd (snd (start pf ins gs p))) =
         trace p @ Chdir (directory gs) # Bind (port gs) # evs)) \<and>
   (configure pf argv p = Inr gs \<and> \<not> dir_exists pf (directory gs) \<longrightarrow>
      run_script pf argv ins p =
        (Some 1, p\<lparr>sigint := Signal_handler,
                   trace := trace p @ [Stderr (Traceback FileNotFoundError)]\<rparr>)) \<and>
   (configure pf argv p = Inr gs \<and> dir_exists pf (directory gs) \<and>
    port_state pf (port gs) \<noteq> Free \<longrightarrow>
      (\<exists>e. run_script pf argv ins p =
         (Some 1, p\<lparr>sigint := Signal_handler, cwd := directory gs,
                    trace := trace p @ [Chdir (directory gs), Stderr (Traceback e)]\<rparr>)))"
proof (intro conjI impI)
  assume "\<not> dir_exists pf (directory gs)"
  then show "start pf ins gs p = (Raise FileNotFoundError, gs, p)"
    by (rule start_no_directory)
next
  assume "dir_exists pf (directory gs) \<and> port_state pf (port gs) = InUse"
  then show "start pf ins gs p =
      (Raise OSError, gs, p\<lparr>cwd := directory gs, trace := trace p @ [Chdir (directory gs)]\<rparr>)"
    by (simp add: start_port_in_use)
next
  assume "dir_exists pf (directory gs) \<and> port_state pf (port gs) = Denied"
  then show "start pf ins gs p =
      (Raise PermissionError, gs, p\<lparr>cwd := directory gs, trace := trace p @ [Chdir (directory gs)]\<rparr>)"
    by (simp add: start_port_denied)
next
  assume "dir_exists pf (directory gs) \<and> port_state pf (port gs) = Free"
  then show "\<exists>evs. trace (snd (snd (start pf ins gs p))) =
      trace p @ Chdir (directory gs) # Bind (port gs) # evs"
    by (simp add: start_trace_bound)
next
  assume a: "configure pf argv p = Inr gs \<and> \<not> dir_exists pf (directory gs)"
  then have "main pf argv ins p = (Raise FileNotFoundError, p\<lparr>sigint := Signal_handler\<rparr>)"
    by (simp add: main_def start_no_directory)
  then show "run_script pf argv ins p =
      (Some 1, p\<lparr>sigint := Signal_handler, trace := trace p @ [Stderr (Traceback FileNotFoundError)]\<rparr>)"
    by (simp add: run_script_def emit_def)
next
  assume a: "configure pf argv p = Inr gs \<and> dir_exists pf (directory gs) \<and>
    port_state pf (port gs) \<noteq> Free"
  let ?p' = "p\<lparr>sigint := Signal_handler, cwd := directory gs, trace := trace p @ [Chdir (directory gs)]\<rparr>"
  from a consider "port_state pf (port gs) = InUse" | "port_state pf (port gs) = Denied"
    by (cases "port_state pf (port gs)") auto
  then show "\<exists>e. run_script pf argv ins p =
      (Some 1, p\<lparr>sigint := Signal_handler, cwd := directory gs,
                 trace := trace p @ [Chdir (directory gs), Stderr (Traceback e)]\<rparr>)"
  proof cases
    case 1
    with a have "main pf argv ins p = (Raise OSError, ?p')"
      by (simp add: main_def start_port_in_use)
    then have "run_script pf argv ins p =
        (Some 1, p\<lparr>sigint := Signal_handler, cwd := directory gs,
                   trace := trace p @ [Chdir (directory gs), Stderr (Traceback OSError)]\<rparr>)"
      by (simp add: run_script_def emit_def)
    then show ?thesis ..
  next
    case 2
    with a have "main pf argv ins p = (Raise PermissionError, ?p')"
      by (simp add: main_def start_port_denied)
    then have "run_script pf argv ins p =
        (Some 1, p\<lparr>sigint := Signal_handler, cwd := directory gs,
                   trace := trace p @ [Chdir (directory gs), Stderr (Traceback PermissionError)]\<rparr>)"
      by (simp add: run_script_def emit_def)
    then show ?thesis ..
  qed
qed

text \<open>A missing directory, a taken port, a refused port and a free one.\<close>

theorem start_chdir_before_bind_witness:
  "\<not> dir_exists dev_machine ''nowhere'' \<and> dir_exists dev_machine ''assets'' \<and>
   port_state dev_machine 5000 = InUse \<and> port_state dev_machine 80 = Denied \<and>
   port_state dev_machine 8000 = Free \<and>
   fst (start dev_machine [] \<lparr>port = 8000, directory = ''nowhere'', httpd = None\<rparr> fresh_process) =
     Raise FileNotFoundError \<and>
   fst (start dev_machine [] \<lparr>port = 5000, directory = ''assets'', httpd = None\<rparr> fresh_process) =
     Raise OSError \<and>
   fst (start dev_machine [] \<lparr>port = 80, directory = ''assets'', httpd = None\<rparr> fresh_process) =
     Raise PermissionError \<and>
   (\<exists>evs. trace (snd (snd (start dev_machine []
              \<lparr>port = 8000, directory = ''assets'', httpd = None\<rparr> fresh_process))) =
            Chdir ''assets'' # Bind 8000 # evs) \<and>
   configure dev_machine [''server.py'', ''nowhere''] fresh_process =
     Inr \<lparr>port = 8000, directory = ''nowhere'', httpd = None\<rparr> \<and>
   fst (run_script dev_machine [''server.py'', ''nowhere''] [] fresh_process) = Some 1 \<and>
   configure dev_machine [''server.py'', ''assets'', ''80''] fresh_process =
     Inr \<lparr>port = 80, directory = ''assets'', httpd = None\<rparr> \<and>
   fst (run_script dev_machine [''server.py'', ''assets'', ''80''] [] fresh_process) = Some 1"
proof -
  let ?g1 = "\<lparr>port = 8000, directory = ''nowhere'', httpd = None\<rparr>"
  let ?g2 = "\<lparr>port = 5000, directory = ''assets'', httpd = None\<rparr>"
  let ?g3 = "\<lparr>port = 80, directory = ''assets'', httpd = None\<rparr>"
  let ?g4 = "\<lparr>port = 8000, directory = ''assets'', httpd = None\<rparr>"
  note t1 = start_chdir_before_bind [where pf = dev_machine and gs = ?g1 and p = fresh_process
      and ins = "[]" and argv = "[''server.py'', ''nowhere'']"]
  note t2 = start_chdir_before_bind [where pf = dev_machine and gs = ?g2 and p = fresh_process
      and ins = "[]"]
  note t3 = start_chdir_before_bind [where pf = dev_machine and gs = ?g3 and p = fresh_process
      and ins = "[]" and argv = "[''server.py'', ''assets'', ''80'']"]
  note t4 = start_chdir_before_bind [where pf = dev_machine and gs = ?g4 and p = fresh_process
      and ins = "[]"]
  have r1: "fst (start dev_machine [] ?g1 fresh_process) = Raise FileNotFoundError"
    using conjunct1 [OF t1] dev_machine_dirs by simp
  have r2: "fst (start dev_machine [] ?g2 fresh_process) = Raise OSError"
    using conjunct1 [OF conjunct2 [OF t2]] dev_machine_dirs dev_machine_ports by simp
  have r3: "fst (start dev_machine [] ?g3 fresh_process) = Raise PermissionError"
    using conjunct1 [OF conjunct2 [OF conjunct2 [OF t3]]] dev_machine_dirs dev_machine_ports
    by simp
  have r4: "\<exists>evs. trace (snd (snd (start dev_machine [] ?g4 fresh_process))) =
      Chdir ''assets'' # Bind 8000 # evs"
    using conjunct1 [OF conjunct2 [OF conjunct2 [OF conjunct2 [OF t4]]]]
      dev_machine_dirs dev_machine_ports
    by (simp add: fresh_process_def)
  have r5: "fst (run_script dev_machine [''server.py'', ''nowhere''] [] fresh_process) = Some 1"
    using conjunct1 [OF conjunct2 [OF conjunct2 [OF conjunct2 [OF conjunct2 [OF t1]]]]]
      configure_nowhere dev_machine_dirs
    by simp
  have r6: "fst (run_script dev_machine [''server.py'', ''assets'', ''80''] [] fresh_process) = Some 1"
    using conjunct2 [OF conjunct2 [OF conjunct2 [OF conjunct2 [OF conjunct2 [OF t3]]]]]
      configure_assets_80 dev_machine_dirs dev_machine_ports
    by auto
  from r1 r2 r3 r4 r5 r6 configure_nowhere configure_assets_80 dev_machine_dirs dev_machine_ports
  show ?thesis by simp
qed

text \<open>
  C6, at a failing input. On a machine where \<^verbatim>\<open>open\<close> runs and finds no Google
  Chrome (exit status 1) while Firefox could be opened (exit status 0), the only
  attempt is the one for Chrome: \<^verbatim>\<open>check=False\<close> makes \<^verbatim>\<open>subprocess.run\<close> return,
  no \<^verbatim>\<open>except\<close> branch is entered, and no browser is opened.
\<close>

theorem chrome_missing_ends_chain:
  "run_command mac_without_chrome (chrome_command 8000) = Exited 1 \<and>
   run_command mac_without_chrome (firefox_command 8000) = Exited 0 \<and>
   trace (open_browser mac_without_chrome 8000 fresh_process) =
     [Run [''open'', ''-a'', ''Google Chrome'', ''http://localhost:8000'']]"
proof -
  have u: "url 8000 = ''http://localhost:8000''"
    by (simp add: url_def str_def)
  have c: "run_command mac_without_chrome (chrome_command 8000) = Exited 1"
    by (simp add: mac_without_chrome_def chrome_command_def)
  have f: "run_command mac_without_chrome (firefox_command 8000) = Exited 0"
    by (simp add: mac_without_chrome_def firefox_command_def)
  have "trace (open_browser mac_without_chrome 8000 fresh_process) = [Run (chrome_command 8000)]"
    by (simp add: open_browser_def c emit_def fresh_process_def)
  with c f u show ?thesis by (simp add: chrome_command_def)
qed

subsection \<open>Interrupts\<close>

text \<open>
  C8. The script installs \<^verbatim>\<open>signal_handler\<close> for \<^verbatim>\<open>SIGINT\<close>. When the server has
  started and an interrupt arrives while it serves, the process exits with status 0:
  the handler's message is the last thing written and nothing goes to the standard
  error stream, so no traceback.
\<close>

theorem interrupt_exits_zero:
  assumes c: "configure pf argv p = Inr gs"
    and d: "dir_exists pf (directory gs)"
    and f: "port_state pf (port gs) = Free"
    and i: "Interrupt \<in> set ins"
  shows "\<exists>p'. run_script pf argv ins p = (Some 0, p') \<and> sigint p' = Signal_handler \<and>
           (\<exists>evs. trace p' = trace p @ evs @ [Stdout Msg_received_interrupt] \<and>
                  (\<forall>m. Stderr m \<notin> set evs))"
proof -
  let ?p1 = "p\<lparr>sigint := Signal_handler\<rparr>"
  let ?q = "open_browser pf (port gs) (banner gs (after_bind gs ?p1))"
  let ?srv = "\<lparr>server_port = port gs, socket_open = True, loop = Not_started\<rparr>"
  have sq: "sigint ?q = Signal_handler"
    by (simp add: after_bind_def emit_def)
  obtain es where tq: "trace ?q = trace p @ [Chdir (directory gs), Bind (port gs),
        Stdout Msg_starting, Stdout (Msg_serving (directory gs)), Stdout (Msg_url (port gs)),
        Stdout Msg_press_ctrl_c, Stdout Msg_rule] @ es" and e: "\<forall>m. Stderr m \<notin> set es"
    using open_browser_trace [of pf "port gs" "banner gs (after_bind gs ?p1)"]
    by (auto simp: banner_trace after_bind_def emit_def)
  obtain p' k where s: "serve_forever ?srv ins ?q = (Raise (SystemExit 0), ?srv\<lparr>loop := Finished\<rparr>, p')"
    and sp: "sigint p' = Signal_handler"
    and tp: "trace p' = trace ?q @ replicate k Handle_request @ [Stdout Msg_received_interrupt]"
    using serve_forever_interrupt [OF sq i, of ?srv] by blast
  have "start pf ins gs ?p1 = (Raise (SystemExit 0), gs\<lparr>httpd := Some (?srv\<lparr>loop := Finished\<rparr>)\<rparr>, p')"
    by (simp add: start_bound [OF d f] s)
  then have "main pf argv ins p = (Raise (SystemExit 0), p')"
    using c by (simp add: main_def)
  then have py: "run_script pf argv ins p = (Some 0, p')"
    by (simp add: run_script_def)
  let ?evs = "[Chdir (directory gs), Bind (port gs),
        Stdout Msg_starting, Stdout (Msg_serving (directory gs)), Stdout (Msg_url (port gs)),
        Stdout Msg_press_ctrl_c, Stdout Msg_rule] @ es @ replicate k Handle_request"
  have "trace p' = trace p @ ?evs @ [Stdout Msg_received_interrupt]"
    using tp tq by simp
  moreover have "\<forall>m. Stderr m \<notin> set ?evs"
    using e by auto
  ultimately have "\<exists>evs. trace p' = trace p @ evs @ [Stdout Msg_received_interrupt] \<and>
      (\<forall>m. Stderr m \<notin> set evs)"
    by blast
  with py sp show ?thesis by blast
qed

text \<open>One request, then the interrupt.\<close>

theorem interrupt_exits_zero_witness:
  "configure dev_machine [''server.py''] fresh_process =
     Inr \<lparr>port = 8000, directory = ''/home/dev/game'', httpd = None\<rparr> \<and>
   dir_exists dev_machine ''/home/dev/game'' \<and> port_state dev_machine 8000 = Free \<and>
   Interrupt \<in> set [Request, Interrupt, Request] \<and>
   fst (run_script dev_machine [''server.py''] [Request, Interrupt, Request] fresh_process) = Some 0"
proof -
  let ?gs = "\<lparr>port = 8000, directory = ''/home/dev/game'', httpd = None\<rparr>"
  have d: "dir_exists dev_machine (directory ?gs)"
    by (simp add: dev_machine_dirs)
  have f: "port_state dev_machine (port ?gs) = Free"
    by (simp add: dev_machine_ports)
  have i: "Interrupt \<in> set [Request, Interrupt, Request]"
    by simp
  from interrupt_exits_zero [OF configure_default d f i]
  have "fst (run_script dev_machine [''server.py''] [Request, Interrupt, Request] fresh_process) = Some 0"
    by auto
  with configure_default dev_machine_dirs dev_machine_ports show ?thesis by simp
qed

subsection \<open>Stopping\<close>

text \<open>Whenever the accept loop raises, it has been left: \<^verbatim>\<open>start\<close> calls \<^verbatim>\<open>stop\<close> only then.\<close>

lemma serve_forever_raise_finished:
  "serve_forever srv ins p = (Raise e, srv', p') \<Longrightarrow> loop srv' = Finished"
proof (induction ins arbitrary: p)
  case Nil
  then show ?case by simp
next
  case (Cons i ins)
  show ?case
  proof (cases i)
    case Request
    with Cons.prems have "serve_forever srv ins (emit Handle_request p) = (Raise e, srv', p')"
      by simp
    then show ?thesis by (rule Cons.IH)
  next
    case Interrupt
    with Cons.prems show ?thesis
      by (cases "sigint p") (auto simp: deliver_sigint_def signal_handler_def)
  qed
qed

text \<open>
  With Python's own handler for \<^verbatim>\<open>SIGINT\<close> (the class used without the script), an
  interrupt while serving raises \<^verbatim>\<open>KeyboardInterrupt\<close>, \<^verbatim>\<open>start\<close> calls \<^verbatim>\<open>stop\<close>, and
  \<^verbatim>\<open>start\<close> returns with the loop left and the socket closed.
\<close>

lemma serve_forever_keyboard_interrupt:
  "sigint p = Default_int_handler \<Longrightarrow> Interrupt \<in> set ins \<Longrightarrow>
   \<exists>p'. serve_forever srv ins p = (Raise KeyboardInterrupt, srv\<lparr>loop := Finished\<rparr>, p')"
proof (induction ins arbitrary: p)
  case Nil
  then show ?case by simp
next
  case (Cons i ins)
  show ?case
  proof (cases i)
    case Request
    with Cons.prems have "Interrupt \<in> set ins" by simp
    moreover have "sigint (emit Handle_request p) = Default_int_handler"
      using Cons.prems by (simp add: emit_def)
    ultimately show ?thesis
      using Cons.IH Request by simp
  next
    case Interrupt
    then show ?thesis
      using Cons.prems by (simp add: deliver_sigint_def)
  qed
qed

lemma start_keyboard_interrupt_stops:
  assumes "dir_exists pf (directory gs)" and "port_state pf (port gs) = Free"
    and "sigint p = Default_int_handler" and "Interrupt \<in> set ins"
  shows "\<exists>p'. start pf ins gs p =
           (Return (),
            gs\<lparr>httpd := Some \<lparr>server_port = port gs, socket_open = False, loop = Finished\<rparr>\<rparr>, p')"
proof -
  let ?q = "open_browser pf (port gs) (banner gs (after_bind gs p))"
  let ?srv = "\<lparr>server_port = port gs, socket_open = True, loop = Not_started\<rparr>"
  have "sigint ?q = Default_int_handler"
    using assms(3) by (simp add: after_bind_def emit_def)
  then obtain p' where
    "serve_forever ?srv ins ?q = (Raise KeyboardInterrupt, ?srv\<lparr>loop := Finished\<rparr>, p')"
    using serve_forever_keyboard_interrupt [of ?q ins ?srv] assms(4) by blast
  then show ?thesis
    by (simp add: start_bound [OF assms(1,2)] stop_def shutdown_def server_close_def)
qed

text \<open>
  C7, as the code has it. \<^verbatim>\<open>stop\<close> on a server that was never started (no listener)
  does nothing and raises nothing. On a server whose accept loop has been left it
  raises nothing and returns: it prints its two messages and closes the listening
  socket when that is still open (the call that \<^verbatim>\<open>start\<close> makes), so on a server
  stopped before it changes nothing in the server but prints again. On a server
  whose listener exists and whose accept loop has not been left (not entered yet, or
  still running) it prints its first message and never returns, the socket left
  open.
\<close>

theorem stop_cases:
  "(httpd gs = None \<longrightarrow> stop gs p = (Return (), gs, p)) \<and>
   (httpd gs = Some srv \<and> loop srv = Finished \<and> \<not> socket_open srv \<longrightarrow>
      stop gs p =
        (Return (), gs, p\<lparr>trace := trace p @ [Stdout Msg_stopping, Stdout Msg_stopped]\<rparr>)) \<and>
   (httpd gs = Some srv \<and> loop srv = Finished \<and> socket_open srv \<longrightarrow>
      stop gs p =
        (Return (), gs\<lparr>httpd := Some (srv\<lparr>socket_open := False\<rparr>)\<rparr>,
         p\<lparr>trace := trace p @ [Stdout Msg_stopping, Close (server_port srv), Stdout Msg_stopped]\<rparr>)) \<and>
   (httpd gs = Some srv \<and> loop srv \<noteq> Finished \<longrightarrow>
      stop gs p = (Blocked, gs, p\<lparr>trace := trace p @ [Stdout Msg_stopping]\<rparr>))"
proof (intro conjI impI)
  assume "httpd gs = None"
  then show "stop gs p = (Return (), gs, p)"
    by (simp add: stop_def)
next
  assume "httpd gs = Some srv \<and> loop srv = Finished \<and> \<not> socket_open srv"
  then show "stop gs p =
      (Return (), gs, p\<lparr>trace := trace p @ [Stdout Msg_stopping, Stdout Msg_stopped]\<rparr>)"
    by (cases gs) (simp add: stop_def shutdown_def server_close_def print_def emit_def)
next
  assume "httpd gs = Some srv \<and> loop srv = Finished \<and> socket_open srv"
  then show "stop gs p =
      (Return (), gs\<lparr>httpd := Some (srv\<lparr>socket_open := False\<rparr>)\<rparr>,
       p\<lparr>trace := trace p @ [Stdout Msg_stopping, Close (server_port srv), Stdout Msg_stopped]\<rparr>)"
    by (simp add: stop_def shutdown_def server_close_def print_def emit_def)
next
  assume "httpd gs = Some srv \<and> loop srv \<noteq> Finished"
  then show "stop gs p = (Blocked, gs, p\<lparr>trace := trace p @ [Stdout Msg_stopping]\<rparr>)"
    by (cases "loop srv") (simp_all add: stop_def shutdown_def print_def emit_def)
qed

text \<open>
  A server never started, one stopped before, one interrupted, one bound and not
  yet serving, and one that serves.
\<close>

theorem stop_cases_witness:
  "httpd (GameServer 8000 None fresh_process) = None \<and>
   stop (GameServer 8000 None fresh_process) fresh_process =
     (Return (), GameServer 8000 None fresh_process, fresh_process) \<and>
   stop stopped_server fresh_process =
     (Return (), stopped_server,
      fresh_process\<lparr>trace := [Stdout Msg_stopping, Stdout Msg_stopped]\<rparr>) \<and>
   stop interrupted_server fresh_process =
     (Return (), stopped_server,
      fresh_process\<lparr>trace := [Stdout Msg_stopping, Close 8000, Stdout Msg_stopped]\<rparr>) \<and>
   stop bound_server fresh_process =
     (Blocked, bound_server, fresh_process\<lparr>trace := [Stdout Msg_stopping]\<rparr>) \<and>
   stop serving_server fresh_process =
     (Blocked, serving_server, fresh_process\<lparr>trace := [Stdout Msg_stopping]\<rparr>)"
proof -
  let ?off = "\<lparr>server_port = 8000, socket_open = False, loop = Finished\<rparr>"
  let ?left = "\<lparr>server_port = 8000, socket_open = True, loop = Finished\<rparr>"
  let ?new = "\<lparr>server_port = 8000, socket_open = True, loop = Not_started\<rparr>"
  let ?on = "\<lparr>server_port = 8000, socket_open = True, loop = Serving\<rparr>"
  have h1: "httpd (GameServer 8000 None fresh_process) = None"
    by (simp add: GameServer_def)
  have h2: "httpd stopped_server = Some ?off \<and> loop ?off = Finished \<and> \<not> socket_open ?off"
    by (simp add: stopped_server_def)
  have h3: "httpd interrupted_server = Some ?left \<and> loop ?left = Finished \<and> socket_open ?left"
    by (simp add: interrupted_server_def)
  have h4: "httpd bound_server = Some ?new \<and> loop ?new \<noteq> Finished"
    by (simp add: bound_server_def)
  have h5: "httpd serving_server = Some ?on \<and> loop ?on \<noteq> Finished"
    by (simp add: serving_server_def)
  note blocked = conjunct2 [OF conjunct2 [OF conjunct2 [OF stop_cases]]]
  have r1: "stop (GameServer 8000 None fresh_process) fresh_process =
      (Return (), GameServer 8000 None fresh_process, fresh_process)"
    by (rule mp [OF conjunct1 [OF stop_cases] h1])
  have r2: "stop stopped_server fresh_process =
      (Return (), stopped_server, fresh_process\<lparr>trace := [Stdout Msg_stopping, Stdout Msg_stopped]\<rparr>)"
    using mp [OF conjunct1 [OF conjunct2 [OF stop_cases]] h2, of fresh_process]
    by (simp add: fresh_process_def)
  have r3: "stop interrupted_server fresh_process =
      (Return (), stopped_server,
       fresh_process\<lparr>trace := [Stdout Msg_stopping, Close 8000, Stdout Msg_stopped]\<rparr>)"
    using mp [OF conjunct1 [OF conjunct2 [OF conjunct2 [OF stop_cases]]] h3, of fresh_process]
    by (simp add: fresh_process_def interrupted_server_def stopped_server_def)
  have r4: "stop bound_server fresh_process =
      (Blocked, bound_server, fresh_process\<lparr>trace := [Stdout Msg_stopping]\<rparr>)"
    using mp [OF blocked h4, of fresh_process]
    by (simp add: fresh_process_def)
  have r5: "stop serving_server fresh_process =
      (Blocked, serving_server, fresh_process\<lparr>trace := [Stdout Msg_stopping]\<rparr>)"
    using mp [OF blocked h5, of fresh_process]
    by (simp add: fresh_process_def)
  from h1 r1 r2 r3 r4 r5 show ?thesis by simp
qed

text \<open>
  The statement as first written fails in three states. \<^verbatim>\<open>self.httpd\<close> is never
  reset, so \<^verbatim>\<open>stop\<close> on a server stopped before passes the guard and prints again:
  not a no-op. On a server that is bound and not yet serving, which is not running
  either, \<^verbatim>\<open>stop\<close> prints and then waits for ever in \<^verbatim>\<open>shutdown\<close>. On a server whose
  accept loop is running it does not end the loop or close the socket: it waits for
  ever as well.
\<close>

theorem stop_not_running_counterexample:
  "stop stopped_server fresh_process \<noteq> (Return (), stopped_server, fresh_process) \<and>
   trace (snd (snd (stop stopped_server fresh_process))) =
     [Stdout Msg_stopping, Stdout Msg_stopped] \<and>
   stop bound_server fresh_process =
     (Blocked, bound_server, fresh_process\<lparr>trace := [Stdout Msg_stopping]\<rparr>) \<and>
   stop serving_server fresh_process =
     (Blocked, serving_server, fresh_process\<lparr>trace := [Stdout Msg_stopping]\<rparr>)"
  by (simp add: stop_def shutdown_def server_close_def print_def emit_def stopped_server_def
      bound_server_def serving_server_def fresh_process_def)

end
